theory Spec2Isabelle
  imports Main
begin

section \<open>The view \<open>home_view\<close> of \<open>service_b/web_app/views.py\<close>\<close>

text \<open>
  The module has one function, \<open>home_view\<close>. It reads one environment variable, issues one
  HTTP request through the \<open>requests\<close> library, and hands a value to Django's \<open>render\<close>.
  The process environment and the upstream service are parameters of the model; the calls
  the view makes to the outside (the HTTP request, the log record) are written to a trace
  that is passed in and returned extended, and an exception that leaves the view is the
  \<open>Inl\<close> branch of its result.
\<close>

subsection \<open>Python values\<close>

text \<open>
  What \<open>response.json()\<close> can return, and the literal \<open>{'items': []}\<close>. A \<open>dict\<close> is an
  association list in insertion order; a \<open>float\<close> is kept as its \<open>repr\<close>.
\<close>

datatype pyval =
    PyNone
  | PyBool bool
  | PyInt int
  | PyFloat string
  | PyStr string
  | PyList "pyval list"
  | PyDict "(string \<times> pyval) list"

subsection \<open>Exceptions\<close>

text \<open>
  The exception classes that the three calls of the \<open>try\<close> block can raise. The first seven
  are \<open>requests.exceptions.RequestException\<close> and classes derived from it;
  \<open>RequestsJSONDecodeError\<close> is \<open>requests.exceptions.JSONDecodeError\<close>, which
  \<open>Response.json()\<close> raises since requests 2.27 and which derives from \<open>InvalidJSONError\<close>,
  itself a \<open>RequestException\<close>. \<open>JSONDecodeError\<close> is \<open>json.JSONDecodeError\<close> of the standard
  library (a \<open>ValueError\<close>), which \<open>Response.json()\<close> lets through before requests 2.27.
  \<open>RecursionError\<close> is what the standard library's decoder raises on a body nested deeper
  than the interpreter's recursion limit; no version of \<open>Response.json()\<close> converts it.
\<close>

datatype exc_class =
    RequestException
  | ConnectionError
  | Timeout
  | HTTPError
  | InvalidURL
  | TooManyRedirects
  | RequestsJSONDecodeError
  | JSONDecodeError
  | RecursionError

text \<open>\<open>isinstance(e, requests.exceptions.RequestException)\<close>, by the class of \<open>e\<close>.\<close>

fun issubclass_RequestException :: "exc_class \<Rightarrow> bool" where
  "issubclass_RequestException RequestException = True"
| "issubclass_RequestException ConnectionError = True"
| "issubclass_RequestException Timeout = True"
| "issubclass_RequestException HTTPError = True"
| "issubclass_RequestException InvalidURL = True"
| "issubclass_RequestException TooManyRedirects = True"
| "issubclass_RequestException RequestsJSONDecodeError = True"
| "issubclass_RequestException JSONDecodeError = False"
| "issubclass_RequestException RecursionError = False"

text \<open>An exception object: its class and \<open>str(e)\<close>.\<close>

datatype exc = Exc (cls: exc_class) (str: string)

subsection \<open>The \<open>requests\<close> library\<close>

text \<open>
  A \<open>requests.Response\<close>: the attributes \<open>raise_for_status\<close> reads, and what calling
  \<open>json()\<close> on it does (raise, or return the decoded body).
\<close>

record response =
  status_code :: int
  reason :: string
  url :: string
  json :: "exc + pyval"

text \<open>
  The upstream service and the network in front of it: what \<open>requests.get(url, timeout=t)\<close>
  does for each \<open>url\<close> and \<open>t\<close>, raise an exception or return a response.
\<close>

type_synonym network = "string \<Rightarrow> int \<Rightarrow> exc + response"

text \<open>\<open>os.environ\<close>.\<close>

type_synonym environ = "string \<rightharpoonup> string"

text \<open>What the view does to the outside world, in the order it does it.\<close>

datatype level = DEBUG | INFO | WARNING | ERROR | CRITICAL

datatype event =
    is_HttpGet: HttpGet string int
  | is_LogRecord: LogRecord level string

type_synonym trace = "event list"

text \<open>\<open>str(n)\<close> for an \<open>int\<close>, used in the message of \<open>HTTPError\<close>.\<close>

definition digit_char :: "nat \<Rightarrow> char" where
  "digit_char d = ''0123456789'' ! d"

function str_nat :: "nat \<Rightarrow> string" where
  "str_nat n = (if n < 10 then [digit_char n] else str_nat (n div 10) @ [digit_char (n mod 10)])"
  by pat_completeness auto
termination
  by (relation "measure id") auto

declare str_nat.simps [simp del]

definition str_int :: "int \<Rightarrow> string" where
  "str_int i = (if i < 0 then ''-'' @ str_nat (nat (- i)) else str_nat (nat i))"

text \<open>
  \<open>Response.raise_for_status()\<close> of the \<open>requests\<close> library:
  \<^verbatim>\<open>
    http_error_msg = ""
    if 400 <= self.status_code < 500:
        http_error_msg = f"{self.status_code} Client Error: {reason} for url: {self.url}"
    elif 500 <= self.status_code < 600:
        http_error_msg = f"{self.status_code} Server Error: {reason} for url: {self.url}"
    if http_error_msg:
        raise HTTPError(http_error_msg, response=self)
  \<close>
  \<open>None\<close> is the normal return.
\<close>

definition raise_for_status :: "response \<Rightarrow> exc option" where
  "raise_for_status r =
     (if 400 \<le> status_code r \<and> status_code r < 500 then
        Some (Exc HTTPError (str_int (status_code r) @ '' Client Error: '' @ reason r
                               @ '' for url: '' @ url r))
      else if 500 \<le> status_code r \<and> status_code r < 600 then
        Some (Exc HTTPError (str_int (status_code r) @ '' Server Error: '' @ reason r
                               @ '' for url: '' @ url r))
      else None)"

text \<open>\<open>requests.get(url, timeout=t)\<close>: one request on the wire, and the network's answer.\<close>

definition requests_get :: "network \<Rightarrow> string \<Rightarrow> int \<Rightarrow> trace \<Rightarrow> (exc + response) \<times> trace" where
  "requests_get net u t s = (net u t, s @ [HttpGet u t])"

subsection \<open>The standard library and Django\<close>

text \<open>\<open>os.environ.get(key, default)\<close>.\<close>

definition environ_get :: "environ \<Rightarrow> string \<Rightarrow> string \<Rightarrow> string" where
  "environ_get env k d = (case env k of None \<Rightarrow> d | Some v \<Rightarrow> v)"

text \<open>\<open>logger.error(msg)\<close>: one record of level \<open>ERROR\<close>.\<close>

definition logger_error :: "string \<Rightarrow> trace \<Rightarrow> trace" where
  "logger_error msg s = s @ [LogRecord ERROR msg]"

text \<open>
  \<open>render(request, template_name, context)\<close>. The template engine and \<open>home.html\<close> are not
  part of the module; the response is identified with what the engine is given.
\<close>

record 'req rendered =
  request :: 'req
  template_name :: string
  render_context :: "(string \<times> pyval) list"

definition render :: "'req \<Rightarrow> string \<Rightarrow> (string \<times> pyval) list \<Rightarrow> 'req rendered" where
  "render req t c = \<lparr>request = req, template_name = t, render_context = c\<rparr>"

subsection \<open>\<open>home_view\<close>\<close>

text \<open>Lines 9 and 10: the host read from the environment, and the URL built from it.\<close>

definition service_a_host :: "environ \<Rightarrow> string" where
  "service_a_host env = environ_get env ''SERVICE_A_HOST'' ''service-a''"

definition service_a_url :: "environ \<Rightarrow> string" where
  "service_a_url env = ''http://'' @ service_a_host env @ '':8000/api/data/''"

text \<open>
  Lines 12 to 14, the body of the \<open>try\<close>: the first of the three calls that raises ends
  the block with its exception.
\<close>

definition try_body :: "network \<Rightarrow> string \<Rightarrow> trace \<Rightarrow> (exc + pyval) \<times> trace" where
  "try_body net u s =
     (case requests_get net u 5 s of
        (Inl e, s') \<Rightarrow> (Inl e, s')
      | (Inr r, s') \<Rightarrow>
          (case raise_for_status r of
             Some e \<Rightarrow> (Inl e, s')
           | None \<Rightarrow> (json r, s')))"

text \<open>
  The whole view. The \<open>except\<close> clause of line 15 takes an exception whose class derives
  from \<open>RequestException\<close>; any other exception leaves the view.
\<close>

definition home_view :: "'req \<Rightarrow> environ \<Rightarrow> network \<Rightarrow> trace \<Rightarrow> (exc + 'req rendered) \<times> trace" where
  "home_view req env net s =
     (case try_body net (service_a_url env) s of
        (Inr data, s') \<Rightarrow> (Inr (render req ''home.html'' [(''data'', data)]), s')
      | (Inl e, s') \<Rightarrow>
          if issubclass_RequestException (cls e) then
            (let s'' = logger_error (''Error connecting to Service A: '' @ str e) s';
                 data = PyDict [(''items'', PyList [])]
             in (Inr (render req ''home.html'' [(''data'', data)]), s''))
          else (Inl e, s'))"

subsection \<open>Concrete upstreams\<close>

text \<open>
  Two families of networks for the examples below: one on which every request raises the
  given exception, and one on which every request is answered with the given status line
  and the given outcome of \<open>json()\<close>.
\<close>

definition upstream_raises :: "exc \<Rightarrow> network" where
  "upstream_raises e u t = Inl e"

definition upstream_answers :: "int \<Rightarrow> string \<Rightarrow> exc + pyval \<Rightarrow> network" where
  "upstream_answers c rs j u t = Inr \<lparr>status_code = c, reason = rs, url = u, json = j\<rparr>"

section \<open>Properties\<close>

subsection \<open>The three ways through the view\<close>

lemma raise_for_status_None_iff:
  "raise_for_status r = None \<longleftrightarrow> \<not> (400 \<le> status_code r \<and> status_code r < 600)"
  by (auto simp: raise_for_status_def)

lemma raise_for_status_cls:
  "raise_for_status r = Some e \<Longrightarrow> cls e = HTTPError"
  by (auto simp: raise_for_status_def split: if_splits)

text \<open>\<open>requests.get\<close> raises.\<close>

lemma home_view_fetch_raises:
  "net (service_a_url env) 5 = Inl e \<Longrightarrow>
   home_view req env net s =
     (if issubclass_RequestException (cls e) then
        (Inr (render req ''home.html'' [(''data'', PyDict [(''items'', PyList [])])]),
         s @ [HttpGet (service_a_url env) 5,
              LogRecord ERROR (''Error connecting to Service A: '' @ str e)])
      else (Inl e, s @ [HttpGet (service_a_url env) 5]))"
  by (simp add: home_view_def try_body_def requests_get_def logger_error_def)

text \<open>\<open>requests.get\<close> returns and \<open>raise_for_status\<close> raises.\<close>

lemma home_view_status_raises:
  "net (service_a_url env) 5 = Inr r \<Longrightarrow> raise_for_status r = Some e \<Longrightarrow>
   home_view req env net s =
     (Inr (render req ''home.html'' [(''data'', PyDict [(''items'', PyList [])])]),
      s @ [HttpGet (service_a_url env) 5,
           LogRecord ERROR (''Error connecting to Service A: '' @ str e)])"
  using raise_for_status_cls [of r e]
  by (simp add: home_view_def try_body_def requests_get_def logger_error_def)

text \<open>Both return, and the result of the view is decided by \<open>json()\<close>.\<close>

lemma home_view_json:
  "net (service_a_url env) 5 = Inr r \<Longrightarrow> raise_for_status r = None \<Longrightarrow>
   home_view req env net s =
     (case json r of
        Inr v \<Rightarrow>
          (Inr (render req ''home.html'' [(''data'', v)]), s @ [HttpGet (service_a_url env) 5])
      | Inl e \<Rightarrow>
          if issubclass_RequestException (cls e) then
            (Inr (render req ''home.html'' [(''data'', PyDict [(''items'', PyList [])])]),
             s @ [HttpGet (service_a_url env) 5,
                  LogRecord ERROR (''Error connecting to Service A: '' @ str e)])
          else (Inl e, s @ [HttpGet (service_a_url env) 5]))"
  by (simp add: home_view_def try_body_def requests_get_def logger_error_def split: sum.splits)

lemma success_status_passes:
  "200 \<le> status_code r \<Longrightarrow> status_code r < 300 \<Longrightarrow> raise_for_status r = None"
  by (simp add: raise_for_status_def)

lemma error_status_raises:
  "400 \<le> status_code r \<Longrightarrow> status_code r < 600 \<Longrightarrow> \<exists>e. raise_for_status r = Some e"
  by (auto simp: raise_for_status_def)

text \<open>The trace is only ever extended, and by the same events whatever it held before.\<close>

lemma home_view_trace_independent:
  "home_view req env net s =
     (fst (home_view req env net []), s @ snd (home_view req env net []))"
proof (cases "net (service_a_url env) 5")
  case (Inl e)
  then show ?thesis
    by (simp add: home_view_fetch_raises)
next
  case (Inr r)
  show ?thesis
  proof (cases "raise_for_status r")
    case None
    with Inr show ?thesis
      by (simp add: home_view_json split: sum.splits)
  next
    case (Some e)
    with Inr show ?thesis
      by (simp add: home_view_status_raises)
  qed
qed

subsection \<open>Pass-through of the parsed body\<close>

text \<open>
  C1. When the upstream answers with a 2xx status and \<open>json()\<close> returns a value, the view
  returns the response rendered from \<open>home.html\<close> with a context whose only key, \<open>data\<close>,
  is bound to that value unchanged.
\<close>

theorem home_view_pass_through:
  assumes "net (service_a_url env) 5 = Inr r"
    and "200 \<le> status_code r" and "status_code r < 300"
    and "json r = Inr v"
  shows "fst (home_view req env net s) =
           Inr \<lparr>request = req, template_name = ''home.html'',
                render_context = [(''data'', v)]\<rparr>"
  using assms by (simp add: home_view_json success_status_passes render_def)

theorem home_view_pass_through_witness:
  "upstream_answers 200 ''OK'' (Inr (PyDict [(''items'', PyList [PyStr ''a'', PyStr ''b''])]))
       (service_a_url Map.empty) 5 =
     Inr \<lparr>status_code = 200, reason = ''OK'', url = ''http://service-a:8000/api/data/'',
          json = Inr (PyDict [(''items'', PyList [PyStr ''a'', PyStr ''b''])])\<rparr>
   \<and> fst (home_view () Map.empty
        (upstream_answers 200 ''OK'' (Inr (PyDict [(''items'', PyList [PyStr ''a'', PyStr ''b''])])))
        []) =
     Inr \<lparr>request = (), template_name = ''home.html'',
          render_context = [(''data'', PyDict [(''items'', PyList [PyStr ''a'', PyStr ''b''])])]\<rparr>"
  using home_view_pass_through
    [of "upstream_answers 200 ''OK'' (Inr (PyDict [(''items'', PyList [PyStr ''a'', PyStr ''b''])]))"
        Map.empty
        "\<lparr>status_code = 200, reason = ''OK'', url = ''http://service-a:8000/api/data/'',
          json = Inr (PyDict [(''items'', PyList [PyStr ''a'', PyStr ''b''])])\<rparr>"
        "PyDict [(''items'', PyList [PyStr ''a'', PyStr ''b''])]" "()" "[]"]
  by (simp add: upstream_answers_def service_a_url_def service_a_host_def environ_get_def)

subsection \<open>Failure of the fetch\<close>

text \<open>
  C2, as stated: a failed fetch (connection error, timeout, error status) gives the
  fallback and one \<open>ERROR\<close> record, a successful fetch and parse gives no record, and a
  record is logged if and only if there was a failure. The equivalence does not hold where
  the fetch succeeds and \<open>json()\<close> raises. On a 200 response whose \<open>json()\<close> raises
  \<open>requests.exceptions.JSONDecodeError\<close> one record is logged although no fetch failed; on
  a 200 response whose \<open>json()\<close> raises \<open>json.JSONDecodeError\<close> the view fails, the
  exception leaving it, and no record is logged.
\<close>

theorem home_view_log_iff_failure_counterexample:
  "filter is_LogRecord (snd (home_view () Map.empty
      (upstream_answers 200 ''OK'' (Inl (Exc RequestsJSONDecodeError ''Expecting value''))) [])) =
     [LogRecord ERROR ''Error connecting to Service A: Expecting value'']
   \<and> home_view () Map.empty
      (upstream_answers 200 ''OK'' (Inl (Exc JSONDecodeError ''Expecting value''))) [] =
     (Inl (Exc JSONDecodeError ''Expecting value''),
      [HttpGet ''http://service-a:8000/api/data/'' 5])"
  by (simp add: home_view_def try_body_def requests_get_def raise_for_status_def
      logger_error_def upstream_answers_def service_a_url_def service_a_host_def
      environ_get_def)

text \<open>
  C2, amended. Call the \<open>try\<close> block caught when \<open>requests.get\<close> raises an exception of
  the \<open>RequestException\<close> family (a connection error, a timeout), or returns a response
  with an error status (4xx or 5xx), or returns a response with another status whose
  \<open>json()\<close> raises an exception of that family. The view adds to the trace the request and
  then, if and only if the block is caught, exactly one log record, of level \<open>ERROR\<close>; and
  when the block is caught, it renders with \<open>data\<close> bound to \<open>{'items': []}\<close>. In every other
  case (the fetch and the parse succeed, or an exception outside the family leaves the
  view) nothing is logged.
\<close>

theorem home_view_log_iff_caught:
  "\<exists>msg.
     snd (home_view req env net s) =
       s @ HttpGet (service_a_url env) 5 #
         (if (\<exists>e. net (service_a_url env) 5 = Inl e \<and> issubclass_RequestException (cls e))
             \<or> (\<exists>r. net (service_a_url env) 5 = Inr r
                    \<and> 400 \<le> status_code r \<and> status_code r < 600)
             \<or> (\<exists>r e. net (service_a_url env) 5 = Inr r
                    \<and> \<not> (400 \<le> status_code r \<and> status_code r < 600)
                    \<and> json r = Inl e \<and> issubclass_RequestException (cls e))
          then [LogRecord ERROR msg] else [])
     \<and> ((\<exists>e. net (service_a_url env) 5 = Inl e \<and> issubclass_RequestException (cls e))
             \<or> (\<exists>r. net (service_a_url env) 5 = Inr r
                    \<and> 400 \<le> status_code r \<and> status_code r < 600)
             \<or> (\<exists>r e. net (service_a_url env) 5 = Inr r
                    \<and> \<not> (400 \<le> status_code r \<and> status_code r < 600)
                    \<and> json r = Inl e \<and> issubclass_RequestException (cls e))
          \<longrightarrow> fst (home_view req env net s) =
                Inr \<lparr>request = req, template_name = ''home.html'',
                     render_context = [(''data'', PyDict [(''items'', PyList [])])]\<rparr>)"
proof (cases "net (service_a_url env) 5")
  case (Inl e)
  then show ?thesis
    by (simp add: home_view_fetch_raises render_def)
next
  case (Inr r)
  show ?thesis
  proof (cases "raise_for_status r")
    case (Some x)
    then have "400 \<le> status_code r \<and> status_code r < 600"
      using raise_for_status_None_iff [of r] by simp
    with Inr Some show ?thesis
      by (simp add: home_view_status_raises render_def)
  next
    case None
    then have ok: "\<not> (400 \<le> status_code r \<and> status_code r < 600)"
      by (simp add: raise_for_status_None_iff)
    show ?thesis
    proof (cases "json r")
      case (Inl e)
      with \<open>net (service_a_url env) 5 = Inr r\<close> None ok show ?thesis
        by (simp add: home_view_json render_def)
    next
      case (Inr v)
      with \<open>net (service_a_url env) 5 = Inr r\<close> None ok show ?thesis
        by (auto simp: home_view_json)
    qed
  qed
qed

theorem home_view_log_iff_caught_witness:
  "home_view () Map.empty
       (upstream_raises (Exc Timeout ''Read timed out. (read timeout=5)'')) [] =
     (Inr \<lparr>request = (), template_name = ''home.html'',
           render_context = [(''data'', PyDict [(''items'', PyList [])])]\<rparr>,
      [HttpGet ''http://service-a:8000/api/data/'' 5,
       LogRecord ERROR ''Error connecting to Service A: Read timed out. (read timeout=5)''])
   \<and> home_view () Map.empty
       (upstream_answers 500 ''Internal Server Error'' (Inr PyNone)) [] =
     (Inr \<lparr>request = (), template_name = ''home.html'',
           render_context = [(''data'', PyDict [(''items'', PyList [])])]\<rparr>,
      [HttpGet ''http://service-a:8000/api/data/'' 5,
       LogRecord ERROR (''Error connecting to Service A: 500 Server Error: ''
          @ ''Internal Server Error for url: http://service-a:8000/api/data/'')])
   \<and> home_view () Map.empty
       (upstream_answers 200 ''OK'' (Inl (Exc RequestsJSONDecodeError ''Extra data''))) [] =
     (Inr \<lparr>request = (), template_name = ''home.html'',
           render_context = [(''data'', PyDict [(''items'', PyList [])])]\<rparr>,
      [HttpGet ''http://service-a:8000/api/data/'' 5,
       LogRecord ERROR ''Error connecting to Service A: Extra data''])
   \<and> snd (home_view () Map.empty
       (upstream_answers 200 ''OK'' (Inr (PyDict [(''items'', PyList [])]))) []) =
     [HttpGet ''http://service-a:8000/api/data/'' 5]
   \<and> snd (home_view () Map.empty
       (upstream_answers 200 ''OK'' (Inl (Exc RecursionError ''maximum recursion depth exceeded'')))
       []) =
     [HttpGet ''http://service-a:8000/api/data/'' 5]"
proof -
  let ?u = "''http://service-a:8000/api/data/''"
  let ?fallback = "\<lparr>request = (), template_name = ''home.html'',
      render_context = [(''data'', PyDict [(''items'', PyList [])])]\<rparr>"
  have u: "service_a_url Map.empty = ?u"
    by (simp add: service_a_url_def service_a_host_def environ_get_def)
  have n500: "str_int 500 = ''500''"
    by (simp add: str_int_def str_nat.simps [of 500] str_nat.simps [of 50]
        str_nat.simps [of 5] digit_char_def)
  note t = home_view_log_iff_caught [where req = "()" and env = Map.empty and s = "[]"]
  have "\<exists>msg. home_view () Map.empty
       (upstream_raises (Exc Timeout ''Read timed out. (read timeout=5)'')) [] =
     (Inr ?fallback, [HttpGet ?u 5, LogRecord ERROR msg])"
    using t [where net = "upstream_raises (Exc Timeout ''Read timed out. (read timeout=5)'')"]
    by (simp add: upstream_raises_def u prod_eq_iff)
  then have 1: "home_view () Map.empty
       (upstream_raises (Exc Timeout ''Read timed out. (read timeout=5)'')) [] =
     (Inr ?fallback, [HttpGet ?u 5,
       LogRecord ERROR ''Error connecting to Service A: Read timed out. (read timeout=5)''])"
    by (auto simp: home_view_def try_body_def requests_get_def logger_error_def
        upstream_raises_def u)
  have "\<exists>msg. home_view () Map.empty
       (upstream_answers 500 ''Internal Server Error'' (Inr PyNone)) [] =
     (Inr ?fallback, [HttpGet ?u 5, LogRecord ERROR msg])"
    using t [where net = "upstream_answers 500 ''Internal Server Error'' (Inr PyNone)"]
    by (simp add: upstream_answers_def u prod_eq_iff)
  then have 2: "home_view () Map.empty
       (upstream_answers 500 ''Internal Server Error'' (Inr PyNone)) [] =
     (Inr ?fallback, [HttpGet ?u 5,
       LogRecord ERROR (''Error connecting to Service A: 500 Server Error: ''
          @ ''Internal Server Error for url: http://service-a:8000/api/data/'')])"
    by (auto simp: home_view_def try_body_def requests_get_def logger_error_def
        raise_for_status_def upstream_answers_def u n500)
  have "\<exists>msg. home_view () Map.empty
       (upstream_answers 200 ''OK'' (Inl (Exc RequestsJSONDecodeError ''Extra data''))) [] =
     (Inr ?fallback, [HttpGet ?u 5, LogRecord ERROR msg])"
    using t [where net = "upstream_answers 200 ''OK''
        (Inl (Exc RequestsJSONDecodeError ''Extra data''))"]
    by (simp add: upstream_answers_def u prod_eq_iff)
  then have 3: "home_view () Map.empty
       (upstream_answers 200 ''OK'' (Inl (Exc RequestsJSONDecodeError ''Extra data''))) [] =
     (Inr ?fallback, [HttpGet ?u 5, LogRecord ERROR ''Error connecting to Service A: Extra data''])"
    by (auto simp: home_view_def try_body_def requests_get_def logger_error_def
        raise_for_status_def upstream_answers_def u)
  have 4: "snd (home_view () Map.empty
       (upstream_answers 200 ''OK'' (Inr (PyDict [(''items'', PyList [])]))) []) = [HttpGet ?u 5]"
    using t [where net = "upstream_answers 200 ''OK'' (Inr (PyDict [(''items'', PyList [])]))"]
    by (simp add: upstream_answers_def u)
  have 5: "snd (home_view () Map.empty
       (upstream_answers 200 ''OK''
          (Inl (Exc RecursionError ''maximum recursion depth exceeded''))) []) = [HttpGet ?u 5]"
    using t [where net = "upstream_answers 200 ''OK''
        (Inl (Exc RecursionError ''maximum recursion depth exceeded''))"]
    by (simp add: upstream_answers_def u)
  from 1 2 3 4 5 show ?thesis
    by blast
qed

subsection \<open>Which faults leave the view\<close>




subsection \<open>The upstream URL\<close>

text \<open>
  C4. The URL is \<open>http://\<close>, the value of \<open>SERVICE_A_HOST\<close>, and \<open>:8000/api/data/\<close>; when the
  variable is unset it is \<open>http://service-a:8000/api/data/\<close>; when the variable is
  \<open>alt-host\<close> it is \<open>http://alt-host:8000/api/data/\<close>.
\<close>

theorem service_a_url_exact:
  "(env ''SERVICE_A_HOST'' = Some h \<longrightarrow> service_a_url env = ''http://'' @ h @ '':8000/api/data/'')
   \<and> (env ''SERVICE_A_HOST'' = None \<longrightarrow> service_a_url env = ''http://service-a:8000/api/data/'')
   \<and> service_a_url (env(''SERVICE_A_HOST'' \<mapsto> ''alt-host'')) = ''http://alt-host:8000/api/data/''"
  by (simp add: service_a_url_def service_a_host_def environ_get_def)

theorem service_a_url_exact_witness:
  "[''SERVICE_A_HOST'' \<mapsto> ''10.0.0.7''] ''SERVICE_A_HOST'' = Some ''10.0.0.7''
   \<and> service_a_url [''SERVICE_A_HOST'' \<mapsto> ''10.0.0.7''] = ''http://10.0.0.7:8000/api/data/''
   \<and> Map.empty ''SERVICE_A_HOST'' = (None :: string option)
   \<and> service_a_url Map.empty = ''http://service-a:8000/api/data/''
   \<and> service_a_url [''PATH'' \<mapsto> ''/usr/bin'', ''SERVICE_A_HOST'' \<mapsto> ''alt-host''] =
       ''http://alt-host:8000/api/data/''"
  using service_a_url_exact [of "[''SERVICE_A_HOST'' \<mapsto> ''10.0.0.7'']" "''10.0.0.7''"]
    service_a_url_exact [of Map.empty]
    service_a_url_exact [of "[''PATH'' \<mapsto> ''/usr/bin'']"]
  by simp

subsection \<open>Validation of the status\<close>

text \<open>
  C5, as stated: every status that is not 2xx sends the view down the failure path. It does
  not: \<open>raise_for_status\<close> raises for 4xx and 5xx only. A 300 response (which \<open>requests\<close>
  does not follow as a redirect) with a JSON body is rendered as it is, and nothing is
  logged.
\<close>

theorem home_view_non_2xx_fails_counterexample:
  "home_view () Map.empty
      (upstream_answers 300 ''Multiple Choices'' (Inr (PyDict [(''items'', PyList [PyStr ''a''])])))
      [] =
     (Inr \<lparr>request = (), template_name = ''home.html'',
           render_context = [(''data'', PyDict [(''items'', PyList [PyStr ''a''])])]\<rparr>,
      [HttpGet ''http://service-a:8000/api/data/'' 5])"
  by (simp add: home_view_def try_body_def requests_get_def raise_for_status_def
      upstream_answers_def render_def service_a_url_def service_a_host_def environ_get_def)

text \<open>
  C5, amended: a response whose status is 4xx or 5xx sends the view down the failure path
  (the fallback payload is rendered and one \<open>ERROR\<close> record is logged); a response with any
  other status passes the validation, and the \<open>try\<close> block ends as \<open>json()\<close> does.
\<close>

theorem home_view_error_status_fails:
  assumes "net (service_a_url env) 5 = Inr r"
  shows "(400 \<le> status_code r \<and> status_code r < 600 \<longrightarrow>
            fst (home_view req env net s) =
              Inr \<lparr>request = req, template_name = ''home.html'',
                   render_context = [(''data'', PyDict [(''items'', PyList [])])]\<rparr>
            \<and> (\<exists>msg. snd (home_view req env net s) =
                  s @ [HttpGet (service_a_url env) 5, LogRecord ERROR msg]))
       \<and> (\<not> (400 \<le> status_code r \<and> status_code r < 600) \<longrightarrow>
            try_body net (service_a_url env) s = (json r, s @ [HttpGet (service_a_url env) 5]))"
proof (intro conjI impI)
  assume a: "400 \<le> status_code r \<and> status_code r < 600"
  then obtain x where x: "raise_for_status r = Some x"
    using error_status_raises by blast
  from assms x show "fst (home_view req env net s) =
      Inr \<lparr>request = req, template_name = ''home.html'',
           render_context = [(''data'', PyDict [(''items'', PyList [])])]\<rparr>"
    by (simp add: home_view_status_raises render_def)
  from assms x show "\<exists>msg. snd (home_view req env net s) =
      s @ [HttpGet (service_a_url env) 5, LogRecord ERROR msg]"
    by (simp add: home_view_status_raises)
next
  assume "\<not> (400 \<le> status_code r \<and> status_code r < 600)"
  then have "raise_for_status r = None"
    by (simp add: raise_for_status_None_iff)
  with assms show "try_body net (service_a_url env) s =
      (json r, s @ [HttpGet (service_a_url env) 5])"
    by (simp add: try_body_def requests_get_def)
qed

theorem home_view_error_status_fails_witness:
  "fst (home_view () Map.empty (upstream_answers 404 ''Not Found'' (Inr (PyStr ''gone''))) []) =
     Inr \<lparr>request = (), template_name = ''home.html'',
          render_context = [(''data'', PyDict [(''items'', PyList [])])]\<rparr>
   \<and> (\<exists>msg. snd (home_view () Map.empty
                (upstream_answers 404 ''Not Found'' (Inr (PyStr ''gone''))) []) =
          [HttpGet ''http://service-a:8000/api/data/'' 5, LogRecord ERROR msg])
   \<and> try_body (upstream_answers 304 ''Not Modified'' (Inr (PyInt 7)))
        ''http://service-a:8000/api/data/'' [] =
      (Inr (PyInt 7), [HttpGet ''http://service-a:8000/api/data/'' 5])"
proof -
  let ?u = "''http://service-a:8000/api/data/''"
  have u: "service_a_url Map.empty = ?u"
    by (simp add: service_a_url_def service_a_host_def environ_get_def)
  from home_view_error_status_fails
    [where net = "upstream_answers 404 ''Not Found'' (Inr (PyStr ''gone''))"
       and env = Map.empty
       and r = "\<lparr>status_code = 404, reason = ''Not Found'', url = ?u,
                 json = Inr (PyStr ''gone'')\<rparr>"
       and req = "()" and s = "[]"]
  have 1: "fst (home_view () Map.empty
        (upstream_answers 404 ''Not Found'' (Inr (PyStr ''gone''))) []) =
     Inr \<lparr>request = (), template_name = ''home.html'',
          render_context = [(''data'', PyDict [(''items'', PyList [])])]\<rparr>
   \<and> (\<exists>msg. snd (home_view () Map.empty
                (upstream_answers 404 ''Not Found'' (Inr (PyStr ''gone''))) []) =
          [HttpGet ?u 5, LogRecord ERROR msg])"
    by (simp add: upstream_answers_def u)
  from home_view_error_status_fails
    [where net = "upstream_answers 304 ''Not Modified'' (Inr (PyInt 7))"
       and env = Map.empty
       and r = "\<lparr>status_code = 304, reason = ''Not Modified'', url = ?u,
                 json = Inr (PyInt 7)\<rparr>"
       and s = "[]"]
  have 2: "try_body (upstream_answers 304 ''Not Modified'' (Inr (PyInt 7))) ?u [] =
      (Inr (PyInt 7), [HttpGet ?u 5])"
    by (simp add: upstream_answers_def u)
  from 1 2 show ?thesis by blast
qed

subsection \<open>Failure of the parse\<close>

text \<open>
  C6, as stated: on a 2xx response whose body is not valid JSON, the exception of the parse
  step is outside the \<open>except\<close> clause and leaves the view. That depends on the class of
  the exception: \<open>requests.exceptions.JSONDecodeError\<close>, which \<open>json()\<close> raises since
  requests 2.27, is a \<open>RequestException\<close>, so the clause takes it, and the view logs and
  renders the fallback.
\<close>

theorem home_view_parse_fault_propagates_counterexample:
  "home_view () Map.empty
      (upstream_answers 200 ''OK''
         (Inl (Exc RequestsJSONDecodeError ''Expecting value: line 1 column 1 (char 0)''))) [] =
     (Inr \<lparr>request = (), template_name = ''home.html'',
           render_context = [(''data'', PyDict [(''items'', PyList [])])]\<rparr>,
      [HttpGet ''http://service-a:8000/api/data/'' 5,
       LogRecord ERROR
         ''Error connecting to Service A: Expecting value: line 1 column 1 (char 0)''])"
  by (simp add: home_view_def try_body_def requests_get_def raise_for_status_def
      logger_error_def upstream_answers_def render_def service_a_url_def service_a_host_def
      environ_get_def)

text \<open>
  C6, amended: the \<open>except\<close> clause takes the exceptions of the \<open>RequestException\<close> family
  only. On a 2xx response whose \<open>json()\<close> raises \<open>e\<close>, the view lets \<open>e\<close> through to its
  caller, with nothing logged and nothing rendered, when the class of \<open>e\<close> is outside that
  family (as \<open>json.JSONDecodeError\<close> is); when the class of \<open>e\<close> is inside it, the view
  logs one \<open>ERROR\<close> record and renders the fallback.
\<close>

theorem home_view_parse_fault:
  assumes "net (service_a_url env) 5 = Inr r"
    and "200 \<le> status_code r" and "status_code r < 300"
    and "json r = Inl e"
  shows "home_view req env net s =
     (if issubclass_RequestException (cls e) then
        (Inr \<lparr>request = req, template_name = ''home.html'',
              render_context = [(''data'', PyDict [(''items'', PyList [])])]\<rparr>,
         s @ [HttpGet (service_a_url env) 5,
              LogRecord ERROR (''Error connecting to Service A: '' @ str e)])
      else (Inl e, s @ [HttpGet (service_a_url env) 5]))"
  using assms by (simp add: home_view_json success_status_passes render_def)

theorem home_view_parse_fault_witness:
  "upstream_answers 201 ''Created'' (Inl (Exc JSONDecodeError ''Extra data: line 1 column 5 (char 4)''))
       (service_a_url Map.empty) 5 =
     Inr \<lparr>status_code = 201, reason = ''Created'', url = ''http://service-a:8000/api/data/'',
          json = Inl (Exc JSONDecodeError ''Extra data: line 1 column 5 (char 4)'')\<rparr>
   \<and> home_view () Map.empty
       (upstream_answers 201 ''Created''
          (Inl (Exc JSONDecodeError ''Extra data: line 1 column 5 (char 4)''))) [] =
     (Inl (Exc JSONDecodeError ''Extra data: line 1 column 5 (char 4)''),
      [HttpGet ''http://service-a:8000/api/data/'' 5])"
  using home_view_parse_fault
    [where net = "upstream_answers 201 ''Created''
                    (Inl (Exc JSONDecodeError ''Extra data: line 1 column 5 (char 4)''))"
       and env = Map.empty
       and r = "\<lparr>status_code = 201, reason = ''Created'',
                 url = ''http://service-a:8000/api/data/'',
                 json = Inl (Exc JSONDecodeError ''Extra data: line 1 column 5 (char 4)'')\<rparr>"
       and e = "Exc JSONDecodeError ''Extra data: line 1 column 5 (char 4)''"
       and req = "()" and s = "[]"]
  by (simp add: upstream_answers_def service_a_url_def service_a_host_def environ_get_def)

subsection \<open>The request on the wire\<close>

text \<open>
  C7. Whatever the environment and the upstream, one call of the view adds to the trace
  exactly one HTTP request: a GET of the resolved URL with a timeout of 5. There is no
  second attempt.
\<close>

theorem home_view_one_get:
  "\<exists>evs. snd (home_view req env net s) = s @ evs
         \<and> filter is_HttpGet evs = [HttpGet (service_a_url env) 5]
         \<and> length (filter is_HttpGet evs) = 1"
proof (cases "net (service_a_url env) 5")
  case (Inl e)
  then show ?thesis
    by (simp add: home_view_fetch_raises)
next
  case (Inr r)
  show ?thesis
  proof (cases "raise_for_status r")
    case None
    with Inr show ?thesis
      by (simp add: home_view_json split: sum.splits)
  next
    case (Some x)
    with Inr show ?thesis
      by (simp add: home_view_status_raises)
  qed
qed

subsection \<open>No state between calls\<close>

text \<open>
  C8. Take two calls of the view with the same request, made in environments that give
  \<open>SERVICE_A_HOST\<close> the same value (or both leave it unset, whatever else they hold), on
  upstreams that give the same answer to the request: either both raise the same
  exception, or both return a response with the same status and the same outcome of
  \<open>json()\<close> (whatever the reason phrase and the URL of the responses). Then the two calls
  return the same result and add the same number of events, with the same request among
  them, whatever the trace held before each call; in particular when the second call
  starts on the trace the first one left.
\<close>

theorem home_view_deterministic:
  assumes "env ''SERVICE_A_HOST'' = env' ''SERVICE_A_HOST''"
    and "(\<exists>e. net (service_a_url env) 5 = Inl e \<and> net' (service_a_url env') 5 = Inl e)
       \<or> (\<exists>r r'. net (service_a_url env) 5 = Inr r \<and> net' (service_a_url env') 5 = Inr r'
              \<and> status_code r = status_code r' \<and> json r = json r')"
  shows "fst (home_view req env net s) = fst (home_view req env' net' s')
       \<and> fst (home_view req env' net' (snd (home_view req env net s))) =
           fst (home_view req env net s)
       \<and> (\<exists>evs evs'. snd (home_view req env net s) = s @ evs
              \<and> snd (home_view req env' net' s') = s' @ evs'
              \<and> length evs = length evs'
              \<and> filter is_HttpGet evs = filter is_HttpGet evs')"
proof -
  have u: "service_a_url env' = service_a_url env"
    using assms(1) by (simp add: service_a_url_def service_a_host_def environ_get_def)
  have main: "fst (home_view req env net t) = fst (home_view req env' net' t')
       \<and> (\<exists>evs evs'. snd (home_view req env net t) = t @ evs
              \<and> snd (home_view req env' net' t') = t' @ evs'
              \<and> length evs = length evs'
              \<and> filter is_HttpGet evs = filter is_HttpGet evs')" for t t'
    using assms(2)
  proof (elim disjE exE conjE)
    fix e
    assume "net (service_a_url env) 5 = Inl e" and "net' (service_a_url env') 5 = Inl e"
    then show ?thesis
      by (simp add: home_view_fetch_raises u)
  next
    fix r r'
    assume a: "net (service_a_url env) 5 = Inr r"
      and a': "net' (service_a_url env') 5 = Inr r'"
      and st: "status_code r = status_code r'"
      and js: "json r = json r'"
    show ?thesis
    proof (cases "raise_for_status r")
      case None
      then have "raise_for_status r' = None"
        using st by (simp add: raise_for_status_None_iff)
      with None a a' js show ?thesis
        by (simp add: home_view_json u split: sum.splits)
    next
      case (Some x)
      then have "raise_for_status r' \<noteq> None"
        using st raise_for_status_None_iff [of r] raise_for_status_None_iff [of r'] by simp
      then obtain x' where "raise_for_status r' = Some x'"
        by blast
      with Some a a' show ?thesis
        by (simp add: home_view_status_raises u)
    qed
  qed
  from main [of s s'] main [of s "snd (home_view req env net s)"] show ?thesis
    by simp
qed

theorem home_view_deterministic_witness:
  "[''SERVICE_A_HOST'' \<mapsto> ''alt-host''] ''SERVICE_A_HOST'' =
     [''PATH'' \<mapsto> ''/usr/bin'', ''SERVICE_A_HOST'' \<mapsto> ''alt-host''] ''SERVICE_A_HOST''
   \<and> status_code \<lparr>status_code = 404, reason = ''Not Found'', url = ''a'', json = Inr PyNone\<rparr> =
     status_code \<lparr>status_code = 404, reason = ''NOT FOUND'', url = ''b'', json = Inr PyNone\<rparr>
   \<and> fst (home_view () [''SERVICE_A_HOST'' \<mapsto> ''alt-host'']
        (upstream_answers 404 ''Not Found'' (Inr PyNone)) []) =
     fst (home_view () [''PATH'' \<mapsto> ''/usr/bin'', ''SERVICE_A_HOST'' \<mapsto> ''alt-host'']
        (upstream_answers 404 ''NOT FOUND'' (Inr PyNone)) [LogRecord INFO ''started''])
   \<and> fst (home_view () Map.empty
        (upstream_raises (Exc ConnectionError ''Connection refused''))
        (snd (home_view () Map.empty
           (upstream_raises (Exc ConnectionError ''Connection refused'')) []))) =
     fst (home_view () Map.empty
        (upstream_raises (Exc ConnectionError ''Connection refused'')) [])"
  using home_view_deterministic
    [where env = "[''SERVICE_A_HOST'' \<mapsto> ''alt-host'']"
       and env' = "[''PATH'' \<mapsto> ''/usr/bin'', ''SERVICE_A_HOST'' \<mapsto> ''alt-host'']"
       and net = "upstream_answers 404 ''Not Found'' (Inr PyNone)"
       and net' = "upstream_answers 404 ''NOT FOUND'' (Inr PyNone)"
       and req = "()" and s = "[]" and s' = "[LogRecord INFO ''started'']"]
    home_view_deterministic
    [where env = Map.empty and env' = Map.empty
       and net = "upstream_raises (Exc ConnectionError ''Connection refused'')"
       and net' = "upstream_raises (Exc ConnectionError ''Connection refused'')"
       and req = "()" and s = "[]" and s' = "[]"]
  by (simp add: upstream_answers_def upstream_raises_def)

subsection \<open>An empty host\<close>

text \<open>
  C9. The default host stands in for a variable that is absent, not for one that is set to
  the empty string: with \<open>SERVICE_A_HOST\<close> set to \<open>''\<close> the URL is \<open>http://:8000/api/data/\<close>,
  which is not the default URL, and that is the URL the view requests.
\<close>

theorem service_a_url_empty_host:
  "service_a_url (env(''SERVICE_A_HOST'' \<mapsto> [])) = ''http://:8000/api/data/''
   \<and> service_a_url (env(''SERVICE_A_HOST'' \<mapsto> [])) \<noteq> service_a_url Map.empty
   \<and> service_a_url Map.empty = ''http://service-a:8000/api/data/''
   \<and> fst (requests_get net (service_a_url (env(''SERVICE_A_HOST'' \<mapsto> []))) 5 s) =
       net ''http://:8000/api/data/'' 5"
  by (simp add: service_a_url_def service_a_host_def environ_get_def requests_get_def)

subsection \<open>No check of the payload's shape\<close>

text \<open>
  C10. On a 2xx response whose \<open>json()\<close> returns a value, the view renders with \<open>data\<close>
  bound to that value and does nothing else, whatever the value is: a list, a string, a
  number, or a mapping without the key \<open>items\<close>.
\<close>

theorem home_view_no_shape_check:
  assumes "net (service_a_url env) 5 = Inr r"
    and "200 \<le> status_code r" and "status_code r < 300"
    and "json r = Inr v"
  shows "home_view req env net s =
           (Inr (render req ''home.html'' [(''data'', v)]), s @ [HttpGet (service_a_url env) 5])
         \<and> map_of (render_context (render req ''home.html'' [(''data'', v)])) ''data'' = Some v"
  using assms by (simp add: home_view_json success_status_passes render_def)

theorem home_view_no_shape_check_witness:
  "home_view () Map.empty
       (upstream_answers 200 ''OK'' (Inr (PyList [PyInt 1, PyStr ''x'']))) [] =
     (Inr \<lparr>request = (), template_name = ''home.html'',
           render_context = [(''data'', PyList [PyInt 1, PyStr ''x''])]\<rparr>,
      [HttpGet ''http://service-a:8000/api/data/'' 5])
   \<and> home_view () Map.empty (upstream_answers 200 ''OK'' (Inr (PyStr ''hello''))) [] =
     (Inr \<lparr>request = (), template_name = ''home.html'',
           render_context = [(''data'', PyStr ''hello'')]\<rparr>,
      [HttpGet ''http://service-a:8000/api/data/'' 5])
   \<and> home_view () Map.empty (upstream_answers 204 ''No Content'' (Inr (PyInt 42))) [] =
     (Inr \<lparr>request = (), template_name = ''home.html'',
           render_context = [(''data'', PyInt 42)]\<rparr>,
      [HttpGet ''http://service-a:8000/api/data/'' 5])
   \<and> home_view () Map.empty
       (upstream_answers 200 ''OK'' (Inr (PyDict [(''rows'', PyNone)]))) [] =
     (Inr \<lparr>request = (), template_name = ''home.html'',
           render_context = [(''data'', PyDict [(''rows'', PyNone)])]\<rparr>,
      [HttpGet ''http://service-a:8000/api/data/'' 5])"
proof -
  let ?u = "''http://service-a:8000/api/data/''"
  have u: "service_a_url Map.empty = ?u"
    by (simp add: service_a_url_def service_a_host_def environ_get_def)
  note t = home_view_no_shape_check [where env = Map.empty and req = "()" and s = "[]"]
  have 1: "home_view () Map.empty
       (upstream_answers 200 ''OK'' (Inr (PyList [PyInt 1, PyStr ''x'']))) [] =
     (Inr \<lparr>request = (), template_name = ''home.html'',
           render_context = [(''data'', PyList [PyInt 1, PyStr ''x''])]\<rparr>, [HttpGet ?u 5])"
    using t [where net = "upstream_answers 200 ''OK'' (Inr (PyList [PyInt 1, PyStr ''x'']))"
        and r = "\<lparr>status_code = 200, reason = ''OK'', url = ?u,
                  json = Inr (PyList [PyInt 1, PyStr ''x''])\<rparr>"
        and v = "PyList [PyInt 1, PyStr ''x'']"]
    by (simp add: upstream_answers_def u render_def)
  have 2: "home_view () Map.empty (upstream_answers 200 ''OK'' (Inr (PyStr ''hello''))) [] =
     (Inr \<lparr>request = (), template_name = ''home.html'',
           render_context = [(''data'', PyStr ''hello'')]\<rparr>, [HttpGet ?u 5])"
    using t [where net = "upstream_answers 200 ''OK'' (Inr (PyStr ''hello''))"
        and r = "\<lparr>status_code = 200, reason = ''OK'', url = ?u,
                  json = Inr (PyStr ''hello'')\<rparr>"
        and v = "PyStr ''hello''"]
    by (simp add: upstream_answers_def u render_def)
  have 3: "home_view () Map.empty (upstream_answers 204 ''No Content'' (Inr (PyInt 42))) [] =
     (Inr \<lparr>request = (), template_name = ''home.html'',
           render_context = [(''data'', PyInt 42)]\<rparr>, [HttpGet ?u 5])"
    using t [where net = "upstream_answers 204 ''No Content'' (Inr (PyInt 42))"
        and r = "\<lparr>status_code = 204, reason = ''No Content'', url = ?u,
                  json = Inr (PyInt 42)\<rparr>"
        and v = "PyInt 42"]
    by (simp add: upstream_answers_def u render_def)
  have 4: "home_view () Map.empty
       (upstream_answers 200 ''OK'' (Inr (PyDict [(''rows'', PyNone)]))) [] =
     (Inr \<lparr>request = (), template_name = ''home.html'',
           render_context = [(''data'', PyDict [(''rows'', PyNone)])]\<rparr>, [HttpGet ?u 5])"
    using t [where net = "upstream_answers 200 ''OK'' (Inr (PyDict [(''rows'', PyNone)]))"
        and r = "\<lparr>status_code = 200, reason = ''OK'', url = ?u,
                  json = Inr (PyDict [(''rows'', PyNone)])\<rparr>"
        and v = "PyDict [(''rows'', PyNone)]"]
    by (simp add: upstream_answers_def u render_def)
  from 1 2 3 4 show ?thesis by blast
qed

end
